theory Spec2Isabelle
  imports Complex_Main
begin

section \<open>JavaScript values and strings\<close>

text \<open>
  The facilitator's Express handlers (\<^verbatim>\<open>facilitator/src/index.ts\<close>) receive the request
  body that \<^verbatim>\<open>express.json()\<close> parsed and hand JavaScript values to
  \<^verbatim>\<open>res.json\<close>. A value is modelled by its JSON shape; \<open>JUndefined\<close> is the result of
  reading an absent property (and an absent body). A number carries the value of the parsed
  double; JSON text cannot denote NaN. An object is the list of its own properties, read
  by the first entry for a key.
\<close>

datatype jsval =
    JUndefined
  | JNull
  | JBool bool
  | JNum rat
  | JStr string
  | JArr "jsval list"
  | JObj "(string \<times> jsval) list"

text \<open>ToBoolean, as applied by \<^verbatim>\<open>!x\<close> and \<^verbatim>\<open>x || y\<close>.\<close>

fun truthy :: "jsval \<Rightarrow> bool" where
  "truthy JUndefined = False"
| "truthy JNull = False"
| "truthy (JBool b) = b"
| "truthy (JNum n) = (n \<noteq> 0)"
| "truthy (JStr s) = (s \<noteq> [])"
| "truthy (JArr xs) = True"
| "truthy (JObj kvs) = True"

text \<open>
  Reading a property \<^verbatim>\<open>v.k\<close> of a value that is neither undefined nor null, for the keys
  the handlers read (\<^verbatim>\<open>paymentPayload\<close>, \<^verbatim>\<open>paymentRequirements\<close>,
  \<^verbatim>\<open>network\<close>): none of them is a property of a primitive's or an array's prototype,
  so only an object can hold one.
\<close>

fun get_prop :: "jsval \<Rightarrow> string \<Rightarrow> jsval" where
  "get_prop (JObj kvs) k = (case map_of kvs k of Some v \<Rightarrow> v | None \<Rightarrow> JUndefined)"
| "get_prop v k = JUndefined"

text \<open>Optional chaining \<^verbatim>\<open>v?.k\<close>: undefined when \<open>v\<close> is undefined or null.\<close>

definition opt_prop :: "jsval \<Rightarrow> string \<Rightarrow> jsval" where
  "opt_prop v k = (if v = JUndefined \<or> v = JNull then JUndefined else get_prop v k)"

text \<open>\<^verbatim>\<open>x || y\<close>\<close>

definition js_or :: "jsval \<Rightarrow> jsval \<Rightarrow> jsval" where
  "js_or x y = (if truthy x then x else y)"

text \<open>\<^verbatim>\<open>s.startsWith(p)\<close>, \<^verbatim>\<open>s.includes(p)\<close> and \<^verbatim>\<open>s.replace(p, r)\<close> for a string
  pattern \<open>p\<close> (the first occurrence only is replaced) and a replacement \<open>r\<close> without
  \<^verbatim>\<open>$\<close> patterns.\<close>

definition starts_with :: "string \<Rightarrow> string \<Rightarrow> bool" where
  "starts_with s p = (take (length p) s = p)"

fun str_includes :: "string \<Rightarrow> string \<Rightarrow> bool" where
  "str_includes [] p = (p = [])"
| "str_includes (c # cs) p = (starts_with (c # cs) p \<or> str_includes cs p)"

fun str_replace :: "string \<Rightarrow> string \<Rightarrow> string \<Rightarrow> string" where
  "str_replace [] p r = (if p = [] then r else [])"
| "str_replace (c # cs) p r =
     (if starts_with (c # cs) p then r @ drop (length p) (c # cs)
      else c # str_replace cs p r)"

section \<open>Thrown values and the facilitator's operations\<close>

text \<open>
  What a \<^verbatim>\<open>catch (error)\<close> clause can receive: an \<^verbatim>\<open>Error\<close> instance with its
  message, or any other value.
\<close>

datatype thrown = ErrorObj string | NonError jsval

text \<open>\<^verbatim>\<open>error instanceof Error ? error.message : "Unknown error"\<close>\<close>

fun error_message :: "thrown \<Rightarrow> string" where
  "error_message (ErrorObj m) = m"
| "error_message (NonError v) = ''Unknown error''"

text \<open>
  \<^verbatim>\<open>facilitator.verify\<close> and \<^verbatim>\<open>facilitator.settle\<close> belong to the package
  \<^verbatim>\<open>@x402/core\<close>; a handler awaits one call, which either resolves to a response
  value or rejects. The operation is a parameter of the handler.
\<close>

type_synonym operation = "jsval \<Rightarrow> jsval \<Rightarrow> thrown + jsval"

datatype call = CallVerify jsval jsval | CallSettle jsval jsval

record response =
  status :: nat
  body :: jsval

section \<open>The handlers\<close>

text \<open>
  \<^verbatim>\<open>const { paymentPayload, paymentRequirements } = req.body\<close>: destructuring undefined
  or null throws a TypeError (the message is Node's).
\<close>

definition destructure :: "jsval \<Rightarrow> thrown + (jsval \<times> jsval)" where
  "destructure b =
     (if b = JUndefined then
        Inl (ErrorObj ''Cannot destructure property 'paymentPayload' of 'req.body' as it is undefined.'')
      else if b = JNull then
        Inl (ErrorObj ''Cannot destructure property 'paymentPayload' of 'req.body' as it is null.'')
      else Inr (get_prop b ''paymentPayload'', get_prop b ''paymentRequirements''))"

definition missing_fields :: response where
  "missing_fields =
     \<lparr>status = 400,
      body = JObj [(''error'', JStr ''Missing paymentPayload or paymentRequirements'')]\<rparr>"

text \<open>\<^verbatim>\<open>res.status(500).json({ error: ... })\<close>\<close>

definition server_error :: "thrown \<Rightarrow> response" where
  "server_error t = \<lparr>status = 500, body = JObj [(''error'', JStr (error_message t))]\<rparr>"

text \<open>
  The \<^verbatim>\<open>try\<close> block of a handler: the calls made to the facilitator, and either the
  response sent (\<^verbatim>\<open>res.json\<close> without \<^verbatim>\<open>res.status\<close> sends 200) or the value thrown.
\<close>

definition verify_try :: "operation \<Rightarrow> jsval \<Rightarrow> call list \<times> (thrown + response)" where
  "verify_try verify b =
     (case destructure b of
        Inl t \<Rightarrow> ([], Inl t)
      | Inr (paymentPayload, paymentRequirements) \<Rightarrow>
          if \<not> truthy paymentPayload \<or> \<not> truthy paymentRequirements
          then ([], Inr missing_fields)
          else ([CallVerify paymentPayload paymentRequirements],
                case verify paymentPayload paymentRequirements of
                  Inl t \<Rightarrow> Inl t
                | Inr r \<Rightarrow> Inr \<lparr>status = 200, body = r\<rparr>))"

definition post_verify :: "operation \<Rightarrow> jsval \<Rightarrow> call list \<times> response" where
  "post_verify verify b =
     (case verify_try verify b of
        (cs, Inl t) \<Rightarrow> (cs, server_error t)
      | (cs, Inr r) \<Rightarrow> (cs, r))"

definition settle_try :: "operation \<Rightarrow> jsval \<Rightarrow> call list \<times> (thrown + response)" where
  "settle_try settle b =
     (case destructure b of
        Inl t \<Rightarrow> ([], Inl t)
      | Inr (paymentPayload, paymentRequirements) \<Rightarrow>
          if \<not> truthy paymentPayload \<or> \<not> truthy paymentRequirements
          then ([], Inr missing_fields)
          else ([CallSettle paymentPayload paymentRequirements],
                case settle paymentPayload paymentRequirements of
                  Inl t \<Rightarrow> Inl t
                | Inr r \<Rightarrow> Inr \<lparr>status = 200, body = r\<rparr>))"

text \<open>The \<^verbatim>\<open>catch\<close> clause of \<^verbatim>\<open>POST /settle\<close>.\<close>

fun settle_catch :: "jsval \<Rightarrow> thrown \<Rightarrow> response" where
  "settle_catch b (ErrorObj m) =
     (if str_includes m ''Settlement aborted:'' then
        \<lparr>status = 200,
         body = JObj
           [(''success'', JBool False),
            (''errorReason'', JStr (str_replace m ''Settlement aborted: '' [])),
            (''network'',
               js_or (opt_prop (opt_prop b ''paymentPayload'') ''network'') (JStr ''unknown''))]\<rparr>
      else server_error (ErrorObj m))"
| "settle_catch b (NonError v) = server_error (NonError v)"

definition post_settle :: "operation \<Rightarrow> jsval \<Rightarrow> call list \<times> response" where
  "post_settle settle b =
     (case settle_try settle b of
        (cs, Inl t) \<Rightarrow> (cs, settle_catch b t)
      | (cs, Inr r) \<Rightarrow> (cs, r))"

section \<open>Sample requests\<close>

text \<open>An operation that rejects with a given value, and one that resolves to a given response.\<close>

definition rejecting :: "thrown \<Rightarrow> operation" where
  "rejecting t paymentPayload paymentRequirements = Inl t"


definition sample_payload :: jsval where
  "sample_payload = JObj [(''x402Version'', JNum 2), (''network'', JStr ''eip155:11155111'')]"

definition sample_requirements :: jsval where
  "sample_requirements =
     JObj [(''scheme'', JStr ''exact''), (''network'', JStr ''eip155:11155111''),
           (''amount'', JStr ''100000'')]"

definition sample_body :: jsval where
  "sample_body =
     JObj [(''paymentPayload'', sample_payload), (''paymentRequirements'', sample_requirements)]"

definition blank_network_body :: jsval where
  "blank_network_body =
     JObj [(''paymentPayload'', JObj [(''x402Version'', JNum 2), (''network'', JStr [])]),
           (''paymentRequirements'', sample_requirements)]"


section \<open>The abort response as claimed\<close>

text \<open>
  The error reason as the message \<^emph>\<open>with the leading prefix removed\<close>, and the network as
  \<^verbatim>\<open>paymentPayload.network\<close> \<^emph>\<open>when present\<close>, otherwise \<^verbatim>\<open>"unknown"\<close>. These two
  definitions follow the wording of C9, not the source, for comparison with
  \<open>settle_catch\<close>.
\<close>

definition claimed_errorReason :: "string \<Rightarrow> string" where
  "claimed_errorReason m =
     (if starts_with m ''Settlement aborted: '' then drop (length ''Settlement aborted: '') m
      else m)"

definition claimed_network :: "jsval \<Rightarrow> jsval" where
  "claimed_network b =
     (if get_prop (get_prop b ''paymentPayload'') ''network'' = JUndefined then JStr ''unknown''
      else get_prop (get_prop b ''paymentPayload'') ''network'')"

section \<open>The lifecycle hooks\<close>

text \<open>
  The six callbacks registered on the facilitator read fields of their context and call
  \<^verbatim>\<open>console.log\<close>. The context types are those of \<^verbatim>\<open>@x402/core\<close>; the fields are the
  ones the callbacks and the vendor's route configuration name. An optional field is an
  \<open>option\<close>; the \<^verbatim>\<open>error\<close> of a failure context is an \<^verbatim>\<open>Error\<close>.
\<close>

record payment_requirements =
  scheme :: string
  network :: string
  asset :: string
  amount :: string
  payTo :: string
  maxTimeoutSeconds :: nat
  extra :: "(string \<times> string) list"

record verify_response =
  isValid :: bool
  invalidReason :: "string option"
  payer :: "string option"

record settle_response =
  success :: bool
  errorReason :: "string option"
  payer_settled :: "string option"
  transaction :: string
  network_settled :: string

record js_error =
  message :: string

record hook_context =
  paymentPayload :: jsval
  requirements :: payment_requirements

record 'r result_context = hook_context +
  result :: 'r

record failure_context = hook_context +
  error :: js_error

text \<open>
  A callback receives its context by reference and shares the process's console, so it is
  a transformer of both: \<open>ctx\<close> is the context object after the callback, \<open>console\<close>
  the arguments of the \<^verbatim>\<open>console.log\<close> calls so far (as the bytes written). Each
  callback is an \<^verbatim>\<open>async\<close> arrow function without a \<^verbatim>\<open>return\<close>: it resolves to undefined.
\<close>

record 'c hook_run =
  ctx :: 'c
  console :: "string list"

definition console_log :: "string \<Rightarrow> 'c hook_run \<Rightarrow> 'c hook_run" where
  "console_log line s = s\<lparr>console := console s @ [line]\<rparr>"

text \<open>\<^verbatim>\<open>${x}\<close> for an optional string.\<close>

fun interpolate :: "string option \<Rightarrow> string" where
  "interpolate None = ''undefined''"
| "interpolate (Some x) = x"

text \<open>The pictographs of the log lines, in UTF-8.\<close>

definition box_line :: string where "box_line = [CHR 0xE2, CHR 0x94, CHR 0x80]"
definition clipboard :: string where "clipboard = [CHR 0xF0, CHR 0x9F, CHR 0x93, CHR 0x8B]"
definition magnifier :: string where "magnifier = [CHR 0xF0, CHR 0x9F, CHR 0x94, CHR 0x8D]"
definition check_mark :: string where "check_mark = [CHR 0xE2, CHR 0x9C, CHR 0x85]"
definition bust :: string where "bust = [CHR 0xF0, CHR 0x9F, CHR 0x91, CHR 0xA4]"
definition cross_mark :: string where "cross_mark = [CHR 0xE2, CHR 0x9D, CHR 0x8C]"
definition money_bag :: string where "money_bag = [CHR 0xF0, CHR 0x9F, CHR 0x92, CHR 0xB0]"
definition memo :: string where "memo = [CHR 0xF0, CHR 0x9F, CHR 0x93, CHR 0x9D]"
definition link_sign :: string where "link_sign = [CHR 0xF0, CHR 0x9F, CHR 0x94, CHR 0x97]"
definition scroll :: string where "scroll = [CHR 0xF0, CHR 0x9F, CHR 0x93, CHR 0x9C]"
definition globe :: string where "globe = [CHR 0xF0, CHR 0x9F, CHR 0x8C, CHR 0x90]"

text \<open>\<^verbatim>\<open>s.repeat(n)\<close>\<close>

definition repeat :: "string \<Rightarrow> nat \<Rightarrow> string" where
  "repeat x n = concat (replicate n x)"

definition onBeforeVerify :: "hook_context hook_run \<Rightarrow> hook_context hook_run" where
  "onBeforeVerify s0 =
     (let s = console_log (CHR 0x0A # repeat box_line 60) s0;
          s = console_log (clipboard @ '' [VERIFY] Step 1: Received verification request'') s;
          s = console_log (repeat box_line 60) s;
          s = console_log (''   Network: '' @ network (requirements (ctx s))) s;
          s = console_log (''   Amount: '' @ amount (requirements (ctx s)) @ '' (atomic units)'') s;
          s = console_log (''   Asset: '' @ asset (requirements (ctx s))) s;
          s = console_log (''   Pay To: '' @ payTo (requirements (ctx s))) s;
          s = console_log (CHR 0x0A # ''   '' @ magnifier @ '' Validating EIP-3009 signature...'') s;
          s = console_log (''   '' @ magnifier @ '' Checking payer balance...'') s
      in console_log (''   '' @ magnifier @ '' Verifying authorization parameters...'') s)"

definition onAfterVerify ::
  "verify_response result_context hook_run \<Rightarrow> verify_response result_context hook_run" where
  "onAfterVerify s0 =
     (let s = console_log (CHR 0x0A # clipboard @ '' [VERIFY] Step 2: Verification complete'') s0;
          s = (if isValid (result (ctx s)) then
                 (let s = console_log (''   '' @ check_mark @ '' Signature VALID'') s
                  in console_log (''   '' @ bust @ '' Payer: ''
                       @ interpolate (payer (result (ctx s)))) s)
               else
                 console_log (''   '' @ cross_mark @ '' Signature INVALID: ''
                   @ interpolate (invalidReason (result (ctx s)))) s)
      in console_log (repeat box_line 60) s)"

definition onVerifyFailure :: "failure_context hook_run \<Rightarrow> failure_context hook_run" where
  "onVerifyFailure s0 =
     (let s = console_log (CHR 0x0A # cross_mark @ '' [VERIFY] Verification FAILED'') s0;
          s = console_log (''   Error: '' @ message (error (ctx s))) s
      in console_log (repeat box_line 60) s)"

definition onBeforeSettle :: "hook_context hook_run \<Rightarrow> hook_context hook_run" where
  "onBeforeSettle s0 =
     (let s = console_log (CHR 0x0A # repeat box_line 60) s0;
          s = console_log (money_bag @ '' [SETTLE] Step 1: Received settlement request'') s;
          s = console_log (repeat box_line 60) s;
          s = console_log (''   Network: '' @ network (requirements (ctx s))) s;
          s = console_log (''   Amount: '' @ amount (requirements (ctx s)) @ '' (atomic units)'') s;
          s = console_log (CHR 0x0A # ''   '' @ memo
                @ '' Preparing transferWithAuthorization transaction...'') s
      in console_log (''   '' @ link_sign @ '' Submitting to Ethereum Sepolia...'') s)"

definition onAfterSettle ::
  "settle_response result_context hook_run \<Rightarrow> settle_response result_context hook_run" where
  "onAfterSettle s0 =
     (let s = console_log (CHR 0x0A # money_bag @ '' [SETTLE] Step 2: Settlement complete'') s0;
          s = (if success (result (ctx s)) then
                 (let s = console_log (''   '' @ check_mark @ '' Transaction SUCCESS'') s;
                      s = console_log (''   '' @ scroll @ '' TX Hash: ''
                            @ transaction (result (ctx s))) s;
                      s = console_log (''   '' @ globe @ '' Network: ''
                            @ network_settled (result (ctx s))) s
                  in console_log (''   '' @ bust @ '' Payer: ''
                       @ interpolate (payer_settled (result (ctx s)))) s)
               else
                 console_log (''   '' @ cross_mark @ '' Transaction FAILED: ''
                   @ interpolate (errorReason (result (ctx s)))) s)
      in console_log (repeat box_line 60) s)"

definition onSettleFailure :: "failure_context hook_run \<Rightarrow> failure_context hook_run" where
  "onSettleFailure s0 =
     (let s = console_log (CHR 0x0A # cross_mark @ '' [SETTLE] Settlement FAILED'') s0;
          s = console_log (''   Error: '' @ message (error (ctx s))) s
      in console_log (repeat box_line 60) s)"

section \<open>String lemmas\<close>

lemma starts_with_iff: "starts_with s p \<longleftrightarrow> (\<exists>t. s = p @ t)"
  unfolding starts_with_def
  by (metis append_eq_conv_conj append_take_drop_id)

lemma str_includes_iff: "str_includes s p \<longleftrightarrow> (\<exists>u t. s = u @ p @ t)"
proof (induction s)
  case Nil
  then show ?case by auto
next
  case (Cons c cs)
  show ?case
  proof
    assume "str_includes (c # cs) p"
    then consider "starts_with (c # cs) p" | "str_includes cs p" by auto
    then show "\<exists>u t. c # cs = u @ p @ t"
    proof cases
      case 1
      then obtain t where "c # cs = p @ t" by (auto simp: starts_with_iff)
      then have "c # cs = [] @ p @ t" by simp
      then show ?thesis by blast
    next
      case 2
      then obtain u t where "cs = u @ p @ t" using Cons.IH by auto
      then have "c # cs = (c # u) @ p @ t" by simp
      then show ?thesis by blast
    qed
  next
    assume "\<exists>u t. c # cs = u @ p @ t"
    then obtain u t where eq: "c # cs = u @ p @ t" by auto
    show "str_includes (c # cs) p"
    proof (cases u)
      case Nil
      with eq have "starts_with (c # cs) p" by (auto simp: starts_with_iff)
      then show ?thesis by simp
    next
      case (Cons d u')
      with eq have "cs = u' @ p @ t" by simp
      then have "str_includes cs p" using Cons.IH by auto
      then show ?thesis by simp
    qed
  qed
qed


section \<open>The handlers' calls and responses\<close>

lemma destructure_parsed:
  "b \<noteq> JUndefined \<Longrightarrow> b \<noteq> JNull \<Longrightarrow>
     destructure b = Inr (get_prop b ''paymentPayload'', get_prop b ''paymentRequirements'')"
  by (simp add: destructure_def)

lemma settle_try_calls:
  "fst (settle_try settle b) = [CallSettle pp pr] \<Longrightarrow>
     settle_try settle b =
       ([CallSettle pp pr],
        case settle pp pr of Inl t \<Rightarrow> Inl t | Inr r \<Rightarrow> Inr \<lparr>status = 200, body = r\<rparr>)"
  by (auto simp: settle_try_def split: sum.splits prod.splits if_splits)

lemma post_settle_calls: "fst (post_settle settle b) = fst (settle_try settle b)"
  by (simp add: post_settle_def split: prod.splits sum.splits)

lemma js_or_truthy: "truthy (js_or x (JStr ''unknown''))"
  by (simp add: js_or_def)

lemma post_settle_rejected:
  assumes "fst (post_settle settle b) = [CallSettle pp pr]" and "settle pp pr = Inl t"
  shows "snd (post_settle settle b) = settle_catch b t"
proof -
  have "fst (settle_try settle b) = [CallSettle pp pr]"
    using assms(1) by (simp add: post_settle_calls)
  then have "settle_try settle b = ([CallSettle pp pr], Inl t)"
    using assms(2) by (simp add: settle_try_calls)
  then show ?thesis by (simp add: post_settle_def)
qed

text \<open>
  C1. When the \<^verbatim>\<open>facilitator.settle\<close> call of a \<^verbatim>\<open>POST /settle\<close> request rejects, the
  response tells the two kinds of failure apart: an \<^verbatim>\<open>Error\<close> whose message contains
  \<^verbatim>\<open>Settlement aborted:\<close> is answered with status 200 and a body
  \<^verbatim>\<open>{ success: false, errorReason, network }\<close> whose \<^verbatim>\<open>network\<close> is a truthy value (so
  the property is sent); every other thrown value is answered with status 500 and a body
  \<^verbatim>\<open>{ error }\<close>.
\<close>

theorem settle_rejection_discriminated:
  assumes "fst (post_settle settle b) = [CallSettle pp pr]"
    and "settle pp pr = Inl t"
  shows "if (\<exists>m u v. t = ErrorObj m \<and> m = u @ ''Settlement aborted:'' @ v)
         then status (snd (post_settle settle b)) = 200 \<and>
              (\<exists>reason net. body (snd (post_settle settle b)) =
                 JObj [(''success'', JBool False), (''errorReason'', JStr reason),
                       (''network'', net)] \<and> truthy net)
         else status (snd (post_settle settle b)) = 500 \<and>
              body (snd (post_settle settle b)) = JObj [(''error'', JStr (error_message t))]"
proof -
  have r: "snd (post_settle settle b) = settle_catch b t"
    using assms by (rule post_settle_rejected)
  show ?thesis
  proof (cases t)
    case (ErrorObj m)
    then show ?thesis
      by (simp add: r str_includes_iff server_error_def js_or_truthy)
  next
    case (NonError v)
    then show ?thesis
      by (simp add: r server_error_def)
  qed
qed

theorem settle_rejection_discriminated_witness:
  "fst (post_settle (rejecting (ErrorObj ''Settlement aborted: blocked payer'')) sample_body)
     = [CallSettle sample_payload sample_requirements] \<and>
   rejecting (ErrorObj ''Settlement aborted: blocked payer'') sample_payload sample_requirements
     = Inl (ErrorObj ''Settlement aborted: blocked payer'') \<and>
   status (snd (post_settle (rejecting (ErrorObj ''Settlement aborted: blocked payer''))
     sample_body)) = 200 \<and>
   fst (post_settle (rejecting (ErrorObj ''insufficient funds for gas'')) sample_body)
     = [CallSettle sample_payload sample_requirements] \<and>
   status (snd (post_settle (rejecting (ErrorObj ''insufficient funds for gas''))
     sample_body)) = 500"
proof -
  have c1: "fst (post_settle (rejecting t) sample_body)
              = [CallSettle sample_payload sample_requirements]" for t
    by (simp add: post_settle_calls settle_try_def destructure_def sample_body_def
        sample_payload_def sample_requirements_def)
  have r: "rejecting t sample_payload sample_requirements = Inl t" for t
    by (simp add: rejecting_def)
  have yes: "\<exists>m u v. ErrorObj ''Settlement aborted: blocked payer'' = ErrorObj m \<and>
               m = u @ ''Settlement aborted:'' @ v"
    using str_includes_iff [of "''Settlement aborted: blocked payer''" "''Settlement aborted:''"]
    by (simp add: starts_with_def)
  have no: "\<not> (\<exists>m u v. ErrorObj ''insufficient funds for gas'' = ErrorObj m \<and>
               m = u @ ''Settlement aborted:'' @ v)"
    using str_includes_iff [of "''insufficient funds for gas''" "''Settlement aborted:''"]
    by (simp add: starts_with_def)
  show ?thesis
    using settle_rejection_discriminated [OF c1 r, of "ErrorObj ''Settlement aborted: blocked payer''"]
      settle_rejection_discriminated [OF c1 r, of "ErrorObj ''insufficient funds for gas''"]
      yes no c1 r
    by simp
qed








section \<open>The abort response\<close>

text \<open>\<^verbatim>\<open>replace\<close> with a string pattern removes the first occurrence, wherever it is.\<close>

lemma str_replace_absent: "\<not> str_includes s p \<Longrightarrow> str_replace s p r = s"
  by (induction s) auto

lemma str_replace_first:
  assumes "s = u @ p @ v"
    and "\<And>u' v'. s = u' @ p @ v' \<Longrightarrow> length u \<le> length u'"
  shows "str_replace s p r = u @ r @ v"
  using assms
proof (induction u arbitrary: s)
  case Nil
  then have s: "s = p @ v" by simp
  show ?case
  proof (cases s)
    case Nil
    with s show ?thesis by simp
  next
    case (Cons c cs)
    have "starts_with s p" using s by (auto simp: starts_with_iff)
    moreover have "drop (length p) s = v" using s by simp
    ultimately show ?thesis using Cons by auto
  qed
next
  case (Cons a u)
  let ?cs = "u @ p @ v"
  have s: "s = a # ?cs" using Cons.prems(1) by simp
  have nostart: "\<not> starts_with s p"
  proof
    assume "starts_with s p"
    then obtain t where "s = [] @ p @ t" by (auto simp: starts_with_iff)
    then have "length (a # u) \<le> length ([]::string)" by (rule Cons.prems(2))
    then show False by simp
  qed
  have min: "length u \<le> length u'" if "?cs = u' @ p @ v'" for u' v'
  proof -
    from that s have "s = (a # u') @ p @ v'" by simp
    then have "length (a # u) \<le> length (a # u')" by (rule Cons.prems(2))
    then show ?thesis by simp
  qed
  have "str_replace ?cs p r = u @ r @ v"
    by (rule Cons.IH [OF refl]) (rule min)
  then show ?case using s nostart by simp
qed

lemma str_replace_leading: "str_replace (p @ rest) p [] = rest"
  using str_replace_first [of "p @ rest" "[]" p rest "[]"] by simp

lemma settle_try_called:
  assumes "fst (settle_try settle b) = [CallSettle pp pr]"
  shows "b \<noteq> JUndefined \<and> b \<noteq> JNull \<and> pp = get_prop b ''paymentPayload'' \<and> truthy pp"
  using assms
  by (auto simp: settle_try_def destructure_def split: if_splits)

lemma network_of_called:
  assumes "b \<noteq> JUndefined" and "b \<noteq> JNull" and "truthy (get_prop b ''paymentPayload'')"
  shows "js_or (opt_prop (opt_prop b ''paymentPayload'') ''network'') (JStr ''unknown'') =
           (if truthy (get_prop (get_prop b ''paymentPayload'') ''network'')
            then get_prop (get_prop b ''paymentPayload'') ''network'' else JStr ''unknown'')"
  using assms by (auto simp: js_or_def opt_prop_def)

text \<open>
  C9, as the code has it. When \<^verbatim>\<open>POST /settle\<close> answers through the
  \<^verbatim>\<open>Settlement aborted:\<close> branch, the body is
  \<^verbatim>\<open>{ success: false, errorReason, network }\<close> with status 200, where
  \<^verbatim>\<open>errorReason\<close> is the message with the first occurrence of
  \<^verbatim>\<open>"Settlement aborted: "\<close> deleted (the message itself when it has none, the rest of
  the message when it starts with it), and \<^verbatim>\<open>network\<close> is
  \<^verbatim>\<open>paymentPayload.network\<close> of the request body when that value is truthy, otherwise
  \<^verbatim>\<open>"unknown"\<close>.
\<close>

theorem abort_response_body:
  assumes "fst (post_settle settle b) = [CallSettle pp pr]"
    and "settle pp pr = Inl (ErrorObj m)"
    and "m = u0 @ ''Settlement aborted:'' @ v0"
  shows "\<exists>reason.
           snd (post_settle settle b) =
             \<lparr>status = 200,
              body = JObj
                [(''success'', JBool False),
                 (''errorReason'', JStr reason),
                 (''network'',
                    if truthy (get_prop (get_prop b ''paymentPayload'') ''network'')
                    then get_prop (get_prop b ''paymentPayload'') ''network''
                    else JStr ''unknown'')]\<rparr> \<and>
           (\<forall>u v. m = u @ ''Settlement aborted: '' @ v \<and>
                  (\<forall>u' v'. m = u' @ ''Settlement aborted: '' @ v' \<longrightarrow> length u \<le> length u')
                  \<longrightarrow> reason = u @ v) \<and>
           ((\<forall>u v. m \<noteq> u @ ''Settlement aborted: '' @ v) \<longrightarrow> reason = m) \<and>
           (\<forall>rest. m = ''Settlement aborted: '' @ rest \<longrightarrow> reason = rest)"
proof -
  let ?P = "''Settlement aborted: ''"
  let ?reason = "str_replace m ?P []"
  have called: "fst (settle_try settle b) = [CallSettle pp pr]"
    using assms(1) by (simp add: post_settle_calls)
  have b: "b \<noteq> JUndefined" "b \<noteq> JNull" "truthy (get_prop b ''paymentPayload'')"
    using settle_try_called [OF called] by auto
  have inc: "str_includes m ''Settlement aborted:''"
    using assms(3) by (auto simp: str_includes_iff)
  have "snd (post_settle settle b) = settle_catch b (ErrorObj m)"
    using assms(1,2) by (rule post_settle_rejected)
  then have resp: "snd (post_settle settle b) =
      \<lparr>status = 200,
       body = JObj
         [(''success'', JBool False),
          (''errorReason'', JStr ?reason),
          (''network'',
             if truthy (get_prop (get_prop b ''paymentPayload'') ''network'')
             then get_prop (get_prop b ''paymentPayload'') ''network''
             else JStr ''unknown'')]\<rparr>"
    using inc network_of_called [OF b] by simp
  have first: "?reason = u @ v"
    if "m = u @ ?P @ v" and "\<forall>u' v'. m = u' @ ?P @ v' \<longrightarrow> length u \<le> length u'" for u v
    using str_replace_first [of m u ?P v "[]"] that by simp
  have none: "?reason = m" if "\<forall>u v. m \<noteq> u @ ?P @ v"
    using that str_replace_absent [of m ?P "[]"] by (simp add: str_includes_iff)
  have lead: "?reason = rest" if "m = ?P @ rest" for rest
    using that str_replace_leading [of ?P rest] by simp
  show ?thesis
  proof (intro exI [of _ ?reason] conjI allI impI)
    show "snd (post_settle settle b) =
      \<lparr>status = 200,
       body = JObj
         [(''success'', JBool False),
          (''errorReason'', JStr ?reason),
          (''network'',
             if truthy (get_prop (get_prop b ''paymentPayload'') ''network'')
             then get_prop (get_prop b ''paymentPayload'') ''network''
             else JStr ''unknown'')]\<rparr>"
      by (rule resp)
  next
    fix u v
    assume "m = u @ ?P @ v \<and> (\<forall>u' v'. m = u' @ ?P @ v' \<longrightarrow> length u \<le> length u')"
    then show "?reason = u @ v" using first by blast
  next
    assume "\<forall>u v. m \<noteq> u @ ?P @ v"
    then show "?reason = m" by (rule none)
  next
    fix rest
    assume "m = ?P @ rest"
    then show "?reason = rest" by (rule lead)
  qed
qed

theorem abort_response_body_witness:
  "fst (post_settle (rejecting (ErrorObj ''Settlement aborted: blocked payer'')) sample_body)
     = [CallSettle sample_payload sample_requirements] \<and>
   rejecting (ErrorObj ''Settlement aborted: blocked payer'') sample_payload sample_requirements
     = Inl (ErrorObj ''Settlement aborted: blocked payer'') \<and>
   ''Settlement aborted: blocked payer'' = [] @ ''Settlement aborted:'' @ '' blocked payer'' \<and>
   snd (post_settle (rejecting (ErrorObj ''Settlement aborted: blocked payer'')) sample_body) =
     \<lparr>status = 200,
      body = JObj
        [(''success'', JBool False),
         (''errorReason'', JStr ''blocked payer''),
         (''network'', JStr ''eip155:11155111'')]\<rparr>"
proof -
  let ?settle = "rejecting (ErrorObj ''Settlement aborted: blocked payer'')"
  have h1: "fst (post_settle ?settle sample_body) = [CallSettle sample_payload sample_requirements]"
    by (simp add: post_settle_calls settle_try_def destructure_def sample_body_def
        sample_payload_def sample_requirements_def)
  have h2: "?settle sample_payload sample_requirements
              = Inl (ErrorObj ''Settlement aborted: blocked payer'')"
    by (simp add: rejecting_def)
  have h3: "''Settlement aborted: blocked payer'' = [] @ ''Settlement aborted:'' @ '' blocked payer''"
    by simp
  have n: "get_prop (get_prop sample_body ''paymentPayload'') ''network'' = JStr ''eip155:11155111''"
    by (simp add: sample_body_def sample_payload_def)
  from abort_response_body [OF h1 h2 h3]
  obtain reason where
    r: "snd (post_settle ?settle sample_body) =
          \<lparr>status = 200,
           body = JObj
             [(''success'', JBool False),
              (''errorReason'', JStr reason),
              (''network'',
                    if truthy (get_prop (get_prop sample_body ''paymentPayload'') ''network'')
                    then get_prop (get_prop sample_body ''paymentPayload'') ''network''
                    else JStr ''unknown'')]\<rparr>"
    and l: "\<forall>rest. ''Settlement aborted: blocked payer'' = ''Settlement aborted: '' @ rest
              \<longrightarrow> reason = rest"
    by blast
  from l have "''Settlement aborted: blocked payer'' = ''Settlement aborted: '' @ ''blocked payer''
              \<longrightarrow> reason = ''blocked payer''" by (rule spec)
  then have "reason = ''blocked payer''" by simp
  with r n have "snd (post_settle ?settle sample_body) =
     \<lparr>status = 200,
      body = JObj
        [(''success'', JBool False),
         (''errorReason'', JStr ''blocked payer''),
         (''network'', JStr ''eip155:11155111'')]\<rparr>"
    by simp
  with h1 h2 h3 show ?thesis by (intro conjI)
qed

text \<open>
  The claim as worded fails for a message that carries the marker after other text, and
  for a payload whose \<^verbatim>\<open>network\<close> is present and empty: the reason sent is neither the
  message with a leading prefix removed nor the message without its first twenty
  characters, and the network sent is \<^verbatim>\<open>"unknown"\<close>.
\<close>

theorem abort_response_body_counterexample:
  "snd (post_settle (rejecting (ErrorObj ''Relay: Settlement aborted: paused''))
     blank_network_body) =
     \<lparr>status = 200,
      body = JObj
        [(''success'', JBool False),
         (''errorReason'', JStr ''Relay: paused''),
         (''network'', JStr ''unknown'')]\<rparr> \<and>
   claimed_errorReason ''Relay: Settlement aborted: paused'' \<noteq> ''Relay: paused'' \<and>
   drop (length ''Settlement aborted: '') ''Relay: Settlement aborted: paused''
     \<noteq> ''Relay: paused'' \<and>
   claimed_network blank_network_body \<noteq> JStr ''unknown''"
  by code_simp

section \<open>The hooks' frame\<close>

text \<open>
  C10. Each of the six registered hooks leaves its context as it received it (the payload,
  the requirements, the result, the error) and only appends lines to the console.
\<close>

theorem hooks_only_log:
  "ctx (onBeforeVerify bv) = ctx bv \<and> (\<exists>out. console (onBeforeVerify bv) = console bv @ out) \<and>
   ctx (onAfterVerify av) = ctx av \<and> (\<exists>out. console (onAfterVerify av) = console av @ out) \<and>
   ctx (onVerifyFailure fv) = ctx fv \<and> (\<exists>out. console (onVerifyFailure fv) = console fv @ out) \<and>
   ctx (onBeforeSettle bs) = ctx bs \<and> (\<exists>out. console (onBeforeSettle bs) = console bs @ out) \<and>
   ctx (onAfterSettle as) = ctx as \<and> (\<exists>out. console (onAfterSettle as) = console as @ out) \<and>
   ctx (onSettleFailure fs) = ctx fs \<and> (\<exists>out. console (onSettleFailure fs) = console fs @ out)"
proof (intro conjI)
  show "ctx (onBeforeVerify bv) = ctx bv"
    by (simp add: onBeforeVerify_def console_log_def Let_def)
  show "\<exists>out. console (onBeforeVerify bv) = console bv @ out"
    by (simp add: onBeforeVerify_def console_log_def Let_def)
  show "ctx (onAfterVerify av) = ctx av"
    by (simp add: onAfterVerify_def console_log_def Let_def)
  show "\<exists>out. console (onAfterVerify av) = console av @ out"
    by (simp add: onAfterVerify_def console_log_def Let_def)
  show "ctx (onVerifyFailure fv) = ctx fv"
    by (simp add: onVerifyFailure_def console_log_def Let_def)
  show "\<exists>out. console (onVerifyFailure fv) = console fv @ out"
    by (simp add: onVerifyFailure_def console_log_def Let_def)
  show "ctx (onBeforeSettle bs) = ctx bs"
    by (simp add: onBeforeSettle_def console_log_def Let_def)
  show "\<exists>out. console (onBeforeSettle bs) = console bs @ out"
    by (simp add: onBeforeSettle_def console_log_def Let_def)
  show "ctx (onAfterSettle as) = ctx as"
    by (simp add: onAfterSettle_def console_log_def Let_def)
  show "\<exists>out. console (onAfterSettle as) = console as @ out"
    by (simp add: onAfterSettle_def console_log_def Let_def)
  show "ctx (onSettleFailure fs) = ctx fs"
    by (simp add: onSettleFailure_def console_log_def Let_def)
  show "\<exists>out. console (onSettleFailure fs) = console fs @ out"
    by (simp add: onSettleFailure_def console_log_def Let_def)
qed

section \<open>Further facts about the handlers\<close>

text \<open>
  What the two handlers do with the outcome of the facilitator's operation, whatever that
  operation is: a resolved value is sent as it is with status 200, a rejection of
  \<^verbatim>\<open>facilitator.verify\<close> is answered with status 500, and a request calls the facilitator
  at most once.
\<close>

lemma post_verify_resolved:
  assumes "b \<noteq> JUndefined" and "b \<noteq> JNull"
    and "truthy (get_prop b ''paymentPayload'')" and "truthy (get_prop b ''paymentRequirements'')"
    and "verify (get_prop b ''paymentPayload'') (get_prop b ''paymentRequirements'') = Inr r"
  shows "post_verify verify b =
           ([CallVerify (get_prop b ''paymentPayload'') (get_prop b ''paymentRequirements'')],
            \<lparr>status = 200, body = r\<rparr>)"
  using assms by (simp add: post_verify_def verify_try_def destructure_def)

lemma post_verify_rejected:
  assumes "b \<noteq> JUndefined" and "b \<noteq> JNull"
    and "truthy (get_prop b ''paymentPayload'')" and "truthy (get_prop b ''paymentRequirements'')"
    and "verify (get_prop b ''paymentPayload'') (get_prop b ''paymentRequirements'') = Inl t"
  shows "post_verify verify b =
           ([CallVerify (get_prop b ''paymentPayload'') (get_prop b ''paymentRequirements'')],
            \<lparr>status = 500, body = JObj [(''error'', JStr (error_message t))]\<rparr>)"
  using assms by (simp add: post_verify_def verify_try_def destructure_def server_error_def)

lemma post_settle_resolved:
  assumes "b \<noteq> JUndefined" and "b \<noteq> JNull"
    and "truthy (get_prop b ''paymentPayload'')" and "truthy (get_prop b ''paymentRequirements'')"
    and "settle (get_prop b ''paymentPayload'') (get_prop b ''paymentRequirements'') = Inr r"
  shows "post_settle settle b =
           ([CallSettle (get_prop b ''paymentPayload'') (get_prop b ''paymentRequirements'')],
            \<lparr>status = 200, body = r\<rparr>)"
  using assms by (simp add: post_settle_def settle_try_def destructure_def)

lemma one_call_at_most:
  "length (fst (post_verify verify b)) \<le> 1 \<and> length (fst (post_settle settle b)) \<le> 1"
  by (auto simp: post_verify_def post_settle_def verify_try_def settle_try_def
      split: sum.splits prod.splits if_splits)

end
